theory Spec2Isabelle
  imports Main "HOL-Library.AList"
begin

section \<open>The client's network listener (xpra/client/mixins/network_listener.py)\<close>

text \<open>
  The mixin \<^verbatim>\<open>Networklistener\<close> accepts connections on the client's listening sockets,
  wraps each one in a protocol object, answers the request carried in its hello packet and
  closes it after a timeout. The embedding passes the mixin's attributes around as a record
  and keeps, next to them, the part of the outside world the mixin drives: the main loop's
  timeout sources and idle queue, and a trace of the calls made on protocol and connection
  objects. Python objects are represented by their identity (a number).
\<close>

subsection \<open>Values and objects\<close>

datatype pyval =
    PStr string
  | PInt int
  | PTuple "pyval list"
  | PDict "(string \<times> pyval) list"

type_synonym proto = nat
type_synonym tid = nat
type_synonym listener = nat
type_synonym cleanup = nat
type_synonym options = "(string \<times> string) list"

text \<open>A socket definition \<^verbatim>\<open>(socktype, sock, info, cleanup)\<close>, the key type of \<^verbatim>\<open>self.sockets\<close>.\<close>

type_synonym sock_def = "string \<times> listener \<times> string \<times> cleanup"

datatype conn =
    NamedPipeConnection listener int
  | AcceptedConnection nat

datatype ConnectionMessage = PROTOCOL_ERROR | DETACH_REQUEST

datatype done_callback = protocol_closed

datatype py_error = AssertionError | IndexError | Exception string | BaseException string

text \<open>
  What a call of \<^verbatim>\<open>self._process_control(args)\<close> does: it returns, it raises an
  \<^verbatim>\<open>Exception\<close> whose \<^verbatim>\<open>str()\<close> is the text, or it raises an exception that is not an
  \<^verbatim>\<open>Exception\<close> (a \<^verbatim>\<open>BaseException\<close> such as \<^verbatim>\<open>SystemExit\<close> or \<^verbatim>\<open>KeyboardInterrupt\<close>),
  which \<^verbatim>\<open>except Exception\<close> does not catch.
\<close>

datatype control_outcome =
    Returns
  | RaisesException string
  | RaisesBaseException string

text \<open>
  The capabilities of a hello packet, as far as this module reads them:
  \<^verbatim>\<open>caps.strget("request")\<close> and \<^verbatim>\<open>caps.strtupleget("command_request")\<close>.
\<close>

record caps =
  request :: "string option"
  command_request :: "string list"

text \<open>
  An incoming packet: \<^verbatim>\<open>packet[0]\<close> is the type tag, \<^verbatim>\<open>packet[1]\<close> the capabilities
  (\<open>None\<close> when the packet has no second element, where Python raises \<^verbatim>\<open>IndexError\<close>).
\<close>

datatype packet = Packet (ptype: string) (pcaps: "caps option")

text \<open>Calls on the objects outside the mixin, in the order they are made.\<close>

datatype event =
    ConnClose conn
  | SocketProtocolInit proto conn
  | SetSocketType proto string
  | SetAuthenticators proto
  | ProtoStart proto
  | ProtoClose proto
  | ParseRemoteCaps proto
  | EnableCompressorFromCaps proto
  | EnableEncoderFromCaps proto
  | SendNow proto "pyval list"
  | SendDisconnect proto "ConnectionMessage list" "done_callback option"
  | ProcessControl "string list"
  | CleanupCall cleanup
  | LogError py_error

text \<open>Callables handed to \<^verbatim>\<open>idle_add\<close>.\<close>

datatype idle_task =
    add_listen_socket_task string listener options
  | send_info_task proto
  | process_control_task proto "string list"
  | ui_action_task string

subsection \<open>The environment\<close>

text \<open>
  Module constants read from the process environment, and the external collaborators the
  mixin calls, taken as parameters. \<open>control_result\<close> is the outcome of
  \<^verbatim>\<open>self._process_control(args)\<close>. \<open>cleanup_result\<close> is the outcome of a cleanup callable:
  \<open>None\<close> when it returns, \<open>Some text\<close> when it raises an \<^verbatim>\<open>Exception\<close> whose \<^verbatim>\<open>str()\<close> is
  \<open>text\<close>. \<open>listen_socket_cleanup\<close> is what \<^verbatim>\<open>xpra.net.socket_util.add_listen_socket\<close>
  returns. \<open>has_method\<close> tells whether \<^verbatim>\<open>getattr(self, name, None)\<close> finds a method.
\<close>

record env =
  MAX_CONCURRENT_CONNECTIONS :: int
  REQUEST_TIMEOUT :: int
  is_request_allowed :: "proto \<Rightarrow> string \<Rightarrow> bool"
  sys_platform :: string
  getpid :: int
  get_machine_id :: string
  version_str :: string
  has_method :: "string \<Rightarrow> bool"
  control_result :: "string list \<Rightarrow> control_outcome"
  cleanup_result :: "cleanup \<Rightarrow> string option"
  listen_socket_cleanup :: "string \<Rightarrow> listener \<Rightarrow> cleanup option"
  get_info :: "(string \<times> pyval) list"
  get_network_caps :: pyval
  get_session_type :: string
  platform_name :: string
  WAYLAND_DISPLAY :: "string option"
  DISPLAY :: "string option"
  POSIX :: bool
  OSX :: bool

text \<open>The defaults of \<^verbatim>\<open>envint("XPRA_MAX_CONCURRENT_CONNECTIONS", 5)\<close> and
  \<^verbatim>\<open>envint("XPRA_CLIENT_REQUEST_TIMEOUT", 10)\<close>, with some fixed collaborators.\<close>

definition default_env :: env where
  "default_env = \<lparr>
     MAX_CONCURRENT_CONNECTIONS = 5,
     REQUEST_TIMEOUT = 10,
     is_request_allowed = (\<lambda>p r. True),
     sys_platform = ''linux'',
     getpid = 4242,
     get_machine_id = ''0123abcd'',
     version_str = ''6.0'',
     has_method = (\<lambda>n. True),
     control_result = (\<lambda>args. Returns),
     cleanup_result = (\<lambda>c. None),
     listen_socket_cleanup = (\<lambda>t l. Some l),
     get_info = [],
     get_network_caps = PDict [],
     get_session_type = '''',
     platform_name = ''Linux'',
     WAYLAND_DISPLAY = None,
     DISPLAY = Some '':0'',
     POSIX = True,
     OSX = False \<rparr>"

text \<open>Modelled from the spec: the packet type tags of \<^verbatim>\<open>xpra.net.protocol.constants\<close>,
  which is not among the sources; the spec names them \<^verbatim>\<open>connection-lost\<close> and
  \<^verbatim>\<open>gibberish\<close>.\<close>

definition CONNECTION_LOST :: string where
  "CONNECTION_LOST = ''connection-lost''"

definition GIBBERISH :: string where
  "GIBBERISH = ''gibberish''"

text \<open>Modelled from the spec: the values of \<^verbatim>\<open>ExitCode.OK\<close> and \<^verbatim>\<open>ExitCode.FAILURE\<close>
  of \<^verbatim>\<open>xpra.exit_codes\<close>, which is not among the sources; the spec gives the status
  codes of a command reply as 0 and 1.\<close>

definition ExitCode_OK :: int where
  "ExitCode_OK = 0"

definition ExitCode_FAILURE :: int where
  "ExitCode_FAILURE = 1"

subsection \<open>The mixin's state\<close>

text \<open>
  The attributes set by \<^verbatim>\<open>__init__\<close>, the client's \<^verbatim>\<open>exit_code\<close> and \<^verbatim>\<open>session_name\<close>,
  and the main loop: \<open>timeouts\<close> holds the live timeout sources (source id, interval in
  milliseconds, the protocol whose \<^verbatim>\<open>close\<close> closure is the callback), \<open>idle_queue\<close> the
  callables given to \<^verbatim>\<open>idle_add\<close>. Dictionaries are association lists in insertion order.
\<close>

record client =
  exit_code :: "int option"
  session_name :: string
  sockets :: "(sock_def \<times> options) list"
  socket_info :: "(listener \<times> string) list"
  socket_options :: "(listener \<times> options) list"
  socket_cleanup :: "cleanup list"
  potential_protocols :: "proto list"
  close_timers :: "(proto \<times> tid) list"
  timeouts :: "(tid \<times> int \<times> proto) list"
  idle_queue :: "idle_task list"
  next_source_id :: tid
  next_proto :: proto
  trace :: "event list"

text \<open>The state after \<^verbatim>\<open>__init__\<close>; source ids of the main loop start at 1.\<close>

definition init_client :: client where
  "init_client = \<lparr>
     exit_code = None,
     session_name = ''session'',
     sockets = [],
     socket_info = [],
     socket_options = [],
     socket_cleanup = [],
     potential_protocols = [],
     close_timers = [],
     timeouts = [],
     idle_queue = [],
     next_source_id = 1,
     next_proto = 0,
     trace = [] \<rparr>"

definition emit :: "event list \<Rightarrow> client \<Rightarrow> client" where
  "emit evs s = s\<lparr>trace := trace s @ evs\<rparr>"

subsection \<open>The main loop\<close>

text \<open>Modelled from the spec: the main loop's \<^verbatim>\<open>timeout_add\<close>, \<^verbatim>\<open>source_remove\<close> and
  \<^verbatim>\<open>idle_add\<close>, methods the mixin inherits and that are not among the sources. The spec
  (sections 4.6 and 5) describes one-shot timers that can be cancelled and a queue of
  callbacks run one after the other: \<^verbatim>\<open>timeout_add(ms, close)\<close> registers a new source and
  returns its id, \<^verbatim>\<open>source_remove(tid)\<close> drops it, \<^verbatim>\<open>idle_add(f)\<close> queues a callable.\<close>

definition timeout_add :: "int \<Rightarrow> proto \<Rightarrow> client \<Rightarrow> tid \<times> client" where
  "timeout_add ms proto s =
     (next_source_id s,
      s\<lparr>timeouts := timeouts s @ [(next_source_id s, ms, proto)],
        next_source_id := Suc (next_source_id s)\<rparr>)"

definition source_remove :: "tid \<Rightarrow> client \<Rightarrow> client" where
  "source_remove t s = s\<lparr>timeouts := filter (\<lambda>src. fst src \<noteq> t) (timeouts s)\<rparr>"

definition idle_add :: "idle_task \<Rightarrow> client \<Rightarrow> client" where
  "idle_add f s = s\<lparr>idle_queue := idle_queue s @ [f]\<rparr>"

text \<open>Modelled from the spec: the context manager \<^verbatim>\<open>log.trap_error\<close> of \<^verbatim>\<open>xpra.log\<close>,
  which is not among the sources. The spec describes a failure under it as soft (log,
  continue): an exception raised by the body is logged and swallowed.\<close>

definition trap_error :: "py_error option \<times> client \<Rightarrow> client" where
  "trap_error r = (case fst r of None \<Rightarrow> snd r | Some err \<Rightarrow> emit [LogError err] (snd r))"

subsection \<open>Accepting connections\<close>

text \<open>\<^verbatim>\<open>socktype.lower()\<close>, a character being a code point below 256: the letters A to Z
  and the capital letters of Latin-1 (192 to 222, but not the multiplication sign 215)
  have their small letter 32 places further.\<close>

definition lower_char :: "char \<Rightarrow> char" where
  "lower_char c =
     (let n = (of_char c :: nat) in
      if (65 \<le> n \<and> n \<le> 90) \<or> (192 \<le> n \<and> n \<le> 222 \<and> n \<noteq> 215)
      then char_of (n + 32) else c)"

definition str_lower :: "string \<Rightarrow> string" where
  "str_lower = map lower_char"

definition make_protocol :: "string \<Rightarrow> conn \<Rightarrow> listener \<Rightarrow> client \<Rightarrow> client" where
  "make_protocol socktype c l s =
     (let socktype' = str_lower socktype;
          protocol = next_proto s;
          s1 = emit [SocketProtocolInit protocol c] (s\<lparr>next_proto := Suc protocol\<rparr>);
          s2 = emit [SetSocketType protocol socktype'] s1;
          s3 = s2\<lparr>potential_protocols := potential_protocols s2 @ [protocol]\<rparr>;
          s4 = emit [SetAuthenticators protocol] s3
      in emit [ProtoStart protocol] s4)"

text \<open>\<open>accepted\<close> is what \<^verbatim>\<open>accept_connection(socktype, listener, SOCKET_TIMEOUT,
  socket_options)\<close> returns; it is only called on the path that is not a named pipe.\<close>

definition handle_new_connection ::
  "env \<Rightarrow> string \<Rightarrow> listener \<Rightarrow> int \<Rightarrow> conn option \<Rightarrow> client \<Rightarrow> py_error option \<times> client" where
  "handle_new_connection e socktype l handle accepted s =
     (if socktype = [] then (Some AssertionError, s)
      else if socktype = ''named-pipe'' then
        (None, make_protocol socktype (NamedPipeConnection l handle) l s)
      else
        (case accepted of
           None \<Rightarrow> (None, s)
         | Some c \<Rightarrow>
             if int (length (potential_protocols s)) \<ge> MAX_CONCURRENT_CONNECTIONS e
             then (None, emit [ConnClose c] s)
             else (None, make_protocol socktype c l s)))"

definition new_connection ::
  "env \<Rightarrow> string \<Rightarrow> listener \<Rightarrow> int \<Rightarrow> conn option \<Rightarrow> client \<Rightarrow> client \<times> bool" where
  "new_connection e socktype l handle accepted s =
     (if exit_code s \<noteq> None then (s, False)
      else
        (let s1 = trap_error (handle_new_connection e socktype l handle accepted s)
         in (s1, exit_code s1 = None)))"

subsection \<open>Listening sockets and their cleanup\<close>

text \<open>\<^verbatim>\<open>add_listen_socket\<close> registers the cleanup action it gets, when it gets one.\<close>

definition add_listen_socket :: "env \<Rightarrow> string \<Rightarrow> listener \<Rightarrow> options \<Rightarrow> client \<Rightarrow> client" where
  "add_listen_socket e socktype sock opts s =
     (case listen_socket_cleanup e socktype sock of
        None \<Rightarrow> s
      | Some c \<Rightarrow> s\<lparr>socket_cleanup := socket_cleanup s @ [c]\<rparr>)"

fun start_listen_sockets_loop :: "(sock_def \<times> options) list \<Rightarrow> client \<Rightarrow> client" where
  "start_listen_sockets_loop [] s = s"
| "start_listen_sockets_loop (((socktype, sock, info, c), opts) # rest) s =
     start_listen_sockets_loop rest
       (idle_add (add_listen_socket_task socktype sock opts)
          (s\<lparr>socket_info := AList.update sock info (socket_info s),
             socket_options := AList.update sock opts (socket_options s)\<rparr>))"

definition start_listen_sockets :: "client \<Rightarrow> client" where
  "start_listen_sockets s = start_listen_sockets_loop (sockets s) s"

text \<open>Calling a cleanup callable \<^verbatim>\<open>c()\<close>: the call is made, and may raise.\<close>

definition call_cleanup :: "env \<Rightarrow> cleanup \<Rightarrow> client \<Rightarrow> py_error option \<times> client" where
  "call_cleanup e c s = (map_option Exception (cleanup_result e c), emit [CleanupCall c] s)"

text \<open>The first loop of \<^verbatim>\<open>cleanup_sockets\<close>, over the items of the copied timer dictionary.\<close>

fun close_timed_protocols :: "(proto \<times> tid) list \<Rightarrow> client \<Rightarrow> client" where
  "close_timed_protocols [] s = s"
| "close_timed_protocols ((proto, t) # ct) s =
     close_timed_protocols ct (emit [ProtoClose proto] (source_remove t s))"

text \<open>The second and third loops: each callable is called under \<^verbatim>\<open>log.trap_error\<close>.\<close>

fun run_cleanups :: "env \<Rightarrow> cleanup list \<Rightarrow> client \<Rightarrow> client" where
  "run_cleanups e [] s = s"
| "run_cleanups e (c # cs) s = run_cleanups e cs (trap_error (call_cleanup e c s))"

definition sdef_cleanup :: "sock_def \<Rightarrow> cleanup" where
  "sdef_cleanup sdef = snd (snd (snd sdef))"

definition cleanup_sockets :: "env \<Rightarrow> client \<Rightarrow> client" where
  "cleanup_sockets e s =
     (let ct = close_timers s;
          s1 = close_timed_protocols ct (s\<lparr>close_timers := []\<rparr>);
          cleanups = socket_cleanup s1;
          s2 = run_cleanups e cleanups (s1\<lparr>socket_cleanup := []\<rparr>);
          socks = sockets s2
      in run_cleanups e (map (sdef_cleanup \<circ> fst) socks) (s2\<lparr>sockets := []\<rparr>))"

subsection \<open>Packets\<close>

text \<open>\<^verbatim>\<open>list.remove(x)\<close> removes the first occurrence, and raises \<^verbatim>\<open>ValueError\<close>
  (here \<open>None\<close>) when there is none.\<close>

fun list_remove :: "'a \<Rightarrow> 'a list \<Rightarrow> 'a list option" where
  "list_remove x [] = None"
| "list_remove x (y # ys) =
     (if x = y then Some ys else map_option ((#) y) (list_remove x ys))"

text \<open>The closure \<^verbatim>\<open>close\<close> of \<^verbatim>\<open>process_network_packet\<close>: \<^verbatim>\<open>if t:\<close> holds for a timer id
  that is not zero, and the \<^verbatim>\<open>ValueError\<close> of \<^verbatim>\<open>remove\<close> is caught.\<close>

definition close :: "proto \<Rightarrow> client \<Rightarrow> client" where
  "close proto s =
     (let t = map_of (close_timers s) proto;
          s1 = s\<lparr>close_timers := AList.delete proto (close_timers s)\<rparr>;
          s2 = (case t of
                  None \<Rightarrow> s1
                | Some i \<Rightarrow> if i \<noteq> 0 then emit [ProtoClose proto] s1 else s1)
      in case list_remove proto (potential_protocols s2) of
           None \<Rightarrow> s2
         | Some ps \<Rightarrow> s2\<lparr>potential_protocols := ps\<rparr>)"

text \<open>Modelled from the spec: the firing of a timeout source, which is the main loop's
  and not among the sources. The timer is one-shot (section 4.6): the main loop calls the
  callback and, since \<^verbatim>\<open>close\<close> returns \<^verbatim>\<open>None\<close>, destroys the source.\<close>

definition fire_timeout :: "tid \<Rightarrow> client \<Rightarrow> client" where
  "fire_timeout t s =
     (case find (\<lambda>src. fst src = t) (timeouts s) of
        None \<Rightarrow> s
      | Some (_, _, proto) \<Rightarrow> source_remove t (close proto s))"

text \<open>The closure \<^verbatim>\<open>hello_reply\<close>: one call of \<^verbatim>\<open>proto.send_now\<close>. Modelled from the spec:
  \<^verbatim>\<open>send_now\<close> belongs to the protocol class, which is not among the sources; by the spec
  (section 4.3) a send is safe at any time before close and does nothing after it, so the
  call is recorded and raises nothing.\<close>

definition hello_reply :: "proto \<Rightarrow> (string \<times> pyval) list \<Rightarrow> client \<Rightarrow> client" where
  "hello_reply proto data s = emit [SendNow proto [PStr ''hello'', PDict data]] s"

definition get_id_info :: "env \<Rightarrow> client \<Rightarrow> (string \<times> pyval) list" where
  "get_id_info e s =
     [(''session-type'', PStr ''client''),
      (''session-name'', PStr (session_name s)),
      (''platform'', PStr (sys_platform e)),
      (''pid'', PInt (getpid e)),
      (''machine-id'', PStr (get_machine_id e))]"

text \<open>\<^verbatim>\<open>request.replace("-", "_")\<close>\<close>

definition replace_dash :: "string \<Rightarrow> string" where
  "replace_dash = map (\<lambda>c. if c = CHR ''-'' then CHR ''_'' else c)"

definition handle_hello_request :: "env \<Rightarrow> proto \<Rightarrow> string \<Rightarrow> caps \<Rightarrow> client \<Rightarrow> client" where
  "handle_hello_request e proto req c s =
     (if \<not> is_request_allowed e proto req then
        emit [SendDisconnect proto [PROTOCOL_ERROR] None] s
      else if req = ''info'' then idle_add (send_info_task proto) s
      else if req = ''id'' then hello_reply proto (get_id_info e s) s
      else if req = ''detach'' then
        emit [SendDisconnect proto [DETACH_REQUEST] (Some protocol_closed)] s
      else if req = ''version'' then hello_reply proto [(''version'', PStr (version_str e))] s
      else if req \<in> set [''show-menu'', ''show-about'', ''show-session-info''] then
        (if \<not> has_method e (replace_dash req)
         then hello_reply proto [(''error'', PStr (req @ '' not found''))] s
         else hello_reply proto [] (idle_add (ui_action_task (replace_dash req)) s))
      else if req = ''connect_test'' then hello_reply proto [] s
      else if req = ''command'' then
        idle_add (process_control_task proto (command_request c)) s
      else emit [SendDisconnect proto [PROTOCOL_ERROR] None] s)"

text \<open>\<^verbatim>\<open>caps.strget("request")\<close>: the empty string stands for a missing field, both are
  false in \<^verbatim>\<open>if request:\<close>.\<close>

definition strget_request :: "caps \<Rightarrow> string" where
  "strget_request c = (case request c of None \<Rightarrow> [] | Some r \<Rightarrow> r)"

text \<open>The last two lines of \<^verbatim>\<open>process_network_packet\<close>:
  \<^verbatim>\<open>tid = self.timeout_add(REQUEST_TIMEOUT * 1000, close); self._close_timers[proto] = tid\<close>.\<close>

definition arm_close_timer :: "env \<Rightarrow> proto \<Rightarrow> client \<Rightarrow> client" where
  "arm_close_timer e proto s =
     (case timeout_add (REQUEST_TIMEOUT e * 1000) proto s of
        (t, s1) \<Rightarrow> s1\<lparr>close_timers := AList.update proto t (close_timers s1)\<rparr>)"

definition process_network_packet ::
  "env \<Rightarrow> proto \<Rightarrow> packet \<Rightarrow> client \<Rightarrow> py_error option \<times> client" where
  "process_network_packet e proto pkt s =
     (let packet_type = ptype pkt in
      if packet_type = ''hello'' then
        (case pcaps pkt of
           None \<Rightarrow> (Some IndexError, s)
         | Some c \<Rightarrow>
             (let s1 = emit [ParseRemoteCaps proto] s;
                  s2 = emit [EnableCompressorFromCaps proto] s1;
                  s3 = emit [EnableEncoderFromCaps proto] s2;
                  req = strget_request c;
                  s4 = (if req \<noteq> [] then handle_hello_request e proto req c s3 else s3)
              in (None, arm_close_timer e proto s4)))
      else if packet_type \<in> set [CONNECTION_LOST, GIBBERISH] then (None, close proto s)
      else
        (None, arm_close_timer e proto (emit [SendDisconnect proto [PROTOCOL_ERROR] None] s)))"

subsection \<open>Idle callbacks\<close>

text \<open>Python's \<^verbatim>\<open>a or b\<close> on optional strings.\<close>

definition str_or :: "string option \<Rightarrow> string option \<Rightarrow> string option" where
  "str_or a b = (case a of None \<Rightarrow> b | Some x \<Rightarrow> if x = [] then b else a)"

definition send_info :: "env \<Rightarrow> proto \<Rightarrow> client \<Rightarrow> client" where
  "send_info e proto s =
     (let info = get_info e;
          info1 = AList.update ''network'' (get_network_caps e) info;
          session_type = (if get_session_type e \<noteq> [] then get_session_type e else platform_name e);
          info2 = AList.update ''session-type'' (PStr (session_type @ '' client'')) info1;
          display = str_or (WAYLAND_DISPLAY e) (DISPLAY e);
          info3 = (case display of
                     None \<Rightarrow> info2
                   | Some d \<Rightarrow>
                       if d \<noteq> [] \<and> POSIX e \<and> \<not> OSX e
                       then AList.update ''display'' (PStr d) info2 else info2)
      in hello_reply proto info3 s)"

text \<open>The closure \<^verbatim>\<open>process_control\<close> of the \<^verbatim>\<open>command\<close> request. The \<^verbatim>\<open>try\<close> statement
  gives the code and the response, or lets through what \<^verbatim>\<open>except Exception\<close> does not
  catch; the reply is sent after it, when it has not raised.\<close>

definition process_control :: "env \<Rightarrow> proto \<Rightarrow> string list \<Rightarrow> client \<Rightarrow> py_error option \<times> client" where
  "process_control e proto command s =
     (let args = ''control'' # command;
          s1 = emit [ProcessControl args] s;
          r = (case control_result e args of
                 Returns \<Rightarrow> Inr (ExitCode_OK, ''done'')
               | RaisesException text \<Rightarrow> Inr (ExitCode_FAILURE, text)
               | RaisesBaseException text \<Rightarrow> Inl (BaseException text))
      in case r of
           Inl err \<Rightarrow> (Some err, s1)
         | Inr (code, response) \<Rightarrow>
             (None, hello_reply proto
                [(''command_response'', PTuple [PInt code, PStr response])] s1))"

text \<open>Modelled from the spec: the main loop, not among the sources, runs the queued
  callables to completion in order (section 5); what a user interface action does is
  outside this module.\<close>

definition run_idle_task :: "env \<Rightarrow> idle_task \<Rightarrow> client \<Rightarrow> py_error option \<times> client" where
  "run_idle_task e task s =
     (case task of
        add_listen_socket_task socktype sock opts \<Rightarrow> (None, add_listen_socket e socktype sock opts s)
      | send_info_task proto \<Rightarrow> (None, send_info e proto s)
      | process_control_task proto command \<Rightarrow> process_control e proto command s
      | ui_action_task name \<Rightarrow> (None, s))"

definition run_idle :: "env \<Rightarrow> client \<Rightarrow> py_error option \<times> client" where
  "run_idle e s =
     (case idle_queue s of
        [] \<Rightarrow> (None, s)
      | task # rest \<Rightarrow> run_idle_task e task (s\<lparr>idle_queue := rest\<rparr>))"

subsection \<open>Observations on traces\<close>

text \<open>What the cleanup loops add to the trace: each callable is called, and a failure is
  logged.\<close>

definition cleanup_events :: "env \<Rightarrow> cleanup list \<Rightarrow> event list" where
  "cleanup_events e cs =
     concat (map (\<lambda>c. CleanupCall c #
       (case cleanup_result e c of None \<Rightarrow> [] | Some m \<Rightarrow> [LogError (Exception m)])) cs)"

text \<open>The cleanup callables called in a trace, and the errors logged in it, in order.\<close>

definition cleanup_calls :: "event list \<Rightarrow> cleanup list" where
  "cleanup_calls evs = concat (map (\<lambda>ev. case ev of CleanupCall c \<Rightarrow> [c] | _ \<Rightarrow> []) evs)"

definition logged_errors :: "event list \<Rightarrow> py_error list" where
  "logged_errors evs = concat (map (\<lambda>ev. case ev of LogError err \<Rightarrow> [err] | _ \<Rightarrow> []) evs)"

definition failures :: "env \<Rightarrow> cleanup list \<Rightarrow> py_error list" where
  "failures e cs =
     concat (map (\<lambda>c. case cleanup_result e c of None \<Rightarrow> [] | Some m \<Rightarrow> [Exception m]) cs)"

text \<open>The request names of the dispatch table, as the specification lists them
  (section 4.5); the code's own table is the chain of comparisons in
  \<open>handle_hello_request\<close>.\<close>

definition spec_dispatch_table :: "string list" where
  "spec_dispatch_table =
     [''info'', ''id'', ''detach'', ''version'', ''show-menu'', ''show-about'',
      ''show-session-info'', ''connect_test'', ''command'']"

subsection \<open>Example runs\<close>

definition hello_packet :: "string \<Rightarrow> packet" where
  "hello_packet r = Packet ''hello'' (Some \<lparr>request = Some r, command_request = []\<rparr>)"

definition accept_tcp :: "nat \<Rightarrow> client \<Rightarrow> client" where
  "accept_tcp n s = fst (new_connection default_env ''tcp'' 1 0 (Some (AcceptedConnection n)) s)"

text \<open>One, then five connections accepted on a TCP listener.\<close>

definition one_pending :: client where
  "one_pending = accept_tcp 0 init_client"

definition five_pending :: client where
  "five_pending = accept_tcp 4 (accept_tcp 3 (accept_tcp 2 (accept_tcp 1 one_pending)))"

text \<open>The first protocol has sent one hello packet asking for the version, then a second.\<close>

definition hello_once :: client where
  "hello_once = snd (process_network_packet default_env 0 (hello_packet ''version'') one_pending)"

definition hello_twice :: client where
  "hello_twice = snd (process_network_packet default_env 0 (hello_packet ''version'') hello_once)"

text \<open>An environment where the control command fails, and a command request.\<close>

definition failing_env :: env where
  "failing_env = default_env\<lparr>control_result := (\<lambda>args. RaisesException ''no such command'')\<rparr>"

text \<open>An environment where the control command exits the interpreter.\<close>

definition exiting_env :: env where
  "exiting_env = default_env\<lparr>control_result := (\<lambda>args. RaisesBaseException ''SystemExit'')\<rparr>"

text \<open>An environment where no request is allowed.\<close>

definition denying_env :: env where
  "denying_env = default_env\<lparr>is_request_allowed := (\<lambda>p r. False)\<rparr>"

definition command_caps :: caps where
  "command_caps = \<lparr>request = Some ''command'', command_request = [''echo'', ''hi'']\<rparr>"


section \<open>Properties\<close>

subsection \<open>How each operation changes the state\<close>

lemma emit_fields [simp]:
  "exit_code (emit evs s) = exit_code s"
  "session_name (emit evs s) = session_name s"
  "sockets (emit evs s) = sockets s"
  "socket_cleanup (emit evs s) = socket_cleanup s"
  "potential_protocols (emit evs s) = potential_protocols s"
  "close_timers (emit evs s) = close_timers s"
  "timeouts (emit evs s) = timeouts s"
  "idle_queue (emit evs s) = idle_queue s"
  "next_source_id (emit evs s) = next_source_id s"
  "next_proto (emit evs s) = next_proto s"
  "trace (emit evs s) = trace s @ evs"
  by (simp_all add: emit_def)

lemma emit_emit: "emit b (emit a s) = emit (a @ b) s"
  by (simp add: emit_def)

lemma emit_Nil [simp]: "emit [] s = s"
  by (simp add: emit_def)

lemma make_protocol_fields [simp]:
  "potential_protocols (make_protocol t c l s) = potential_protocols s @ [next_proto s]"
  "next_proto (make_protocol t c l s) = Suc (next_proto s)"
  "close_timers (make_protocol t c l s) = close_timers s"
  "timeouts (make_protocol t c l s) = timeouts s"
  "exit_code (make_protocol t c l s) = exit_code s"
  "session_name (make_protocol t c l s) = session_name s"
  "next_source_id (make_protocol t c l s) = next_source_id s"
  "idle_queue (make_protocol t c l s) = idle_queue s"
  "socket_cleanup (make_protocol t c l s) = socket_cleanup s"
  "sockets (make_protocol t c l s) = sockets s"
  "trace (make_protocol t c l s) = trace s @
     [SocketProtocolInit (next_proto s) c, SetSocketType (next_proto s) (str_lower t),
      SetAuthenticators (next_proto s), ProtoStart (next_proto s)]"
  by (simp_all add: make_protocol_def Let_def)

text \<open>Protocol objects are new objects, so the list of pending protocols has no duplicates.\<close>

lemma make_protocol_distinct:
  assumes "distinct (potential_protocols s)"
    and "\<forall>p \<in> set (potential_protocols s). p < next_proto s"
  shows "distinct (potential_protocols (make_protocol t c l s)) \<and>
         (\<forall>p \<in> set (potential_protocols (make_protocol t c l s)).
            p < next_proto (make_protocol t c l s))"
  using assms by (auto simp: less_Suc_eq)

lemma hello_reply_fields [simp]:
  "potential_protocols (hello_reply p d s) = potential_protocols s"
  "close_timers (hello_reply p d s) = close_timers s"
  "timeouts (hello_reply p d s) = timeouts s"
  "idle_queue (hello_reply p d s) = idle_queue s"
  "next_source_id (hello_reply p d s) = next_source_id s"
  "trace (hello_reply p d s) = trace s @ [SendNow p [PStr ''hello'', PDict d]]"
  by (simp_all add: hello_reply_def)

lemma idle_add_fields [simp]:
  "potential_protocols (idle_add f s) = potential_protocols s"
  "close_timers (idle_add f s) = close_timers s"
  "timeouts (idle_add f s) = timeouts s"
  "idle_queue (idle_add f s) = idle_queue s @ [f]"
  "next_source_id (idle_add f s) = next_source_id s"
  "trace (idle_add f s) = trace s"
  by (simp_all add: idle_add_def)

lemma handle_hello_request_fields [simp]:
  "potential_protocols (handle_hello_request e p r c s) = potential_protocols s"
  "close_timers (handle_hello_request e p r c s) = close_timers s"
  "timeouts (handle_hello_request e p r c s) = timeouts s"
  "next_source_id (handle_hello_request e p r c s) = next_source_id s"
  by (simp_all add: handle_hello_request_def)

lemma arm_close_timer_fields [simp]:
  "potential_protocols (arm_close_timer e p s) = potential_protocols s"
  "close_timers (arm_close_timer e p s) = AList.update p (next_source_id s) (close_timers s)"
  "timeouts (arm_close_timer e p s) = timeouts s @ [(next_source_id s, REQUEST_TIMEOUT e * 1000, p)]"
  "idle_queue (arm_close_timer e p s) = idle_queue s"
  "next_source_id (arm_close_timer e p s) = Suc (next_source_id s)"
  "trace (arm_close_timer e p s) = trace s"
  by (simp_all add: arm_close_timer_def timeout_add_def)

lemma source_remove_fields [simp]:
  "potential_protocols (source_remove t s) = potential_protocols s"
  "close_timers (source_remove t s) = close_timers s"
  "timeouts (source_remove t s) = filter (\<lambda>src. fst src \<noteq> t) (timeouts s)"
  "socket_cleanup (source_remove t s) = socket_cleanup s"
  "sockets (source_remove t s) = sockets s"
  "trace (source_remove t s) = trace s"
  by (simp_all add: source_remove_def)

lemma list_remove_None: "list_remove x xs = None \<longleftrightarrow> x \<notin> set xs"
  by (induction xs) auto

lemma list_remove_Some: "list_remove x xs = Some ys \<Longrightarrow> ys = remove1 x xs"
  by (induction xs arbitrary: ys) (auto split: if_splits)

lemma close_fields [simp]:
  "potential_protocols (close p s) = remove1 p (potential_protocols s)"
  "close_timers (close p s) = AList.delete p (close_timers s)"
  "timeouts (close p s) = timeouts s"
  "idle_queue (close p s) = idle_queue s"
  "next_source_id (close p s) = next_source_id s"
  "trace (close p s) = trace s @
     (case map_of (close_timers s) p of
        None \<Rightarrow> []
      | Some t \<Rightarrow> if t \<noteq> 0 then [ProtoClose p] else [])"
  by (auto simp: close_def Let_def list_remove_None remove1_idem
      split: option.splits dest: list_remove_Some)

lemma process_hello_fields:
  "potential_protocols (snd (process_network_packet e p (Packet ''hello'' (Some c)) s))
     = potential_protocols s"
  "close_timers (snd (process_network_packet e p (Packet ''hello'' (Some c)) s))
     = AList.update p (next_source_id s) (close_timers s)"
  "timeouts (snd (process_network_packet e p (Packet ''hello'' (Some c)) s))
     = timeouts s @ [(next_source_id s, REQUEST_TIMEOUT e * 1000, p)]"
  "next_source_id (snd (process_network_packet e p (Packet ''hello'' (Some c)) s))
     = Suc (next_source_id s)"
  "fst (process_network_packet e p (Packet ''hello'' (Some c)) s) = None"
  by (simp_all add: process_network_packet_def Let_def)

lemma process_lost_or_gibberish:
  "ptype pkt \<in> set [CONNECTION_LOST, GIBBERISH] \<Longrightarrow>
   process_network_packet e proto pkt s = (None, close proto s)"
  by (auto simp: process_network_packet_def CONNECTION_LOST_def GIBBERISH_def)

lemma find_distinct_key:
  "distinct (map fst xs) \<Longrightarrow> (k, v) \<in> set xs \<Longrightarrow> find (\<lambda>src. fst src = k) xs = Some (k, v)"
  by (induction xs) (auto simp: rev_image_eqI)

lemma find_fresh_last:
  "\<forall>src \<in> set xs. fst src < (n::nat) \<Longrightarrow> find (\<lambda>src. fst src = n) (xs @ [(n, v)]) = Some (n, v)"
  by (induction xs) auto

lemma close_timed_protocols_fields [simp]:
  "potential_protocols (close_timed_protocols ct s) = potential_protocols s"
  "close_timers (close_timed_protocols ct s) = close_timers s"
  "socket_cleanup (close_timed_protocols ct s) = socket_cleanup s"
  "sockets (close_timed_protocols ct s) = sockets s"
  "timeouts (close_timed_protocols ct s) = filter (\<lambda>src. fst src \<notin> snd ` set ct) (timeouts s)"
  "trace (close_timed_protocols ct s) = trace s @ map (ProtoClose \<circ> fst) ct"
  by (induction ct s rule: close_timed_protocols.induct) (auto intro: filter_cong)

lemma run_cleanups_emit: "run_cleanups e cs s = emit (cleanup_events e cs) s"
  by (induction cs arbitrary: s)
     (auto simp: cleanup_events_def trap_error_def call_cleanup_def emit_emit split: option.splits)

lemma cleanup_sockets_fields [simp]:
  "potential_protocols (cleanup_sockets e s) = potential_protocols s"
  "close_timers (cleanup_sockets e s) = []"
  "socket_cleanup (cleanup_sockets e s) = []"
  "sockets (cleanup_sockets e s) = []"
  "timeouts (cleanup_sockets e s)
     = filter (\<lambda>src. fst src \<notin> snd ` set (close_timers s)) (timeouts s)"
  "trace (cleanup_sockets e s) = trace s @ map (ProtoClose \<circ> fst) (close_timers s)
     @ cleanup_events e (socket_cleanup s)
     @ cleanup_events e (map (sdef_cleanup \<circ> fst) (sockets s))"
  by (simp_all add: cleanup_sockets_def Let_def run_cleanups_emit)


lemma cleanup_calls_append [simp]: "cleanup_calls (a @ b) = cleanup_calls a @ cleanup_calls b"
  by (simp add: cleanup_calls_def)

lemma logged_errors_append [simp]: "logged_errors (a @ b) = logged_errors a @ logged_errors b"
  by (simp add: logged_errors_def)

lemma cleanup_calls_closes [simp]: "cleanup_calls (map (ProtoClose \<circ> fst) ct) = []"
  by (induction ct) (simp_all add: cleanup_calls_def)

lemma logged_errors_closes [simp]: "logged_errors (map (ProtoClose \<circ> fst) ct) = []"
  by (induction ct) (simp_all add: logged_errors_def)

lemma cleanup_calls_events [simp]: "cleanup_calls (cleanup_events e cs) = cs"
  by (induction cs) (auto simp: cleanup_calls_def cleanup_events_def split: option.splits)

lemma logged_errors_events [simp]: "logged_errors (cleanup_events e cs) = failures e cs"
  by (induction cs)
     (auto simp: logged_errors_def cleanup_events_def failures_def split: option.splits)


subsection \<open>The example runs\<close>

lemma accept_tcp_pending:
  "exit_code s = None \<Longrightarrow> length (potential_protocols s) < 5 \<Longrightarrow>
   potential_protocols (accept_tcp n s) = potential_protocols s @ [next_proto s] \<and>
   next_proto (accept_tcp n s) = Suc (next_proto s) \<and> exit_code (accept_tcp n s) = None"
  by (simp add: accept_tcp_def new_connection_def trap_error_def handle_new_connection_def
      default_env_def)

lemma one_pending_fields:
  "potential_protocols one_pending = [0]" "next_proto one_pending = 1"
  "exit_code one_pending = None" "close_timers one_pending = []" "timeouts one_pending = []"
  "next_source_id one_pending = 1" "idle_queue one_pending = []"
  "session_name one_pending = ''session''"
  by (simp_all add: one_pending_def accept_tcp_def new_connection_def trap_error_def
      handle_new_connection_def default_env_def init_client_def)

lemma five_pending_fields:
  "potential_protocols five_pending = [0, 1, 2, 3, 4]" "next_proto five_pending = 5"
  by (simp_all add: five_pending_def accept_tcp_pending one_pending_fields)

lemma hello_once_fields:
  "potential_protocols hello_once = [0]" "close_timers hello_once = [(0, 1)]"
  "timeouts hello_once = [(1, 10000, 0)]" "next_source_id hello_once = 2"
  by (simp_all add: hello_once_def hello_packet_def process_hello_fields one_pending_fields
      default_env_def)

lemma hello_twice_fields:
  "potential_protocols hello_twice = [0]" "close_timers hello_twice = [(0, 2)]"
  "timeouts hello_twice = [(1, 10000, 0), (2, 10000, 0)]" "next_source_id hello_twice = 3"
  by (simp_all add: hello_twice_def hello_packet_def process_hello_fields hello_once_fields
      default_env_def)

subsection \<open>Admission of connections\<close>

text \<open>
  The path of \<open>handle_new_connection\<close> that accepts a socket checks the number of pending
  protocols before it makes a protocol, so it never takes the list over the limit.
\<close>

lemma socket_accept_respects_limit:
  "socktype \<noteq> ''named-pipe'' \<Longrightarrow>
   int (length (potential_protocols s)) \<le> MAX_CONCURRENT_CONNECTIONS e \<Longrightarrow>
   int (length (potential_protocols (snd (handle_new_connection e socktype l h accepted s))))
     \<le> MAX_CONCURRENT_CONNECTIONS e"
  by (simp add: handle_new_connection_def split: option.splits)

text \<open>
  C1: a connection arriving when the pending set already holds
  \<^verbatim>\<open>MAX_CONCURRENT_CONNECTIONS\<close> protocols should be closed with no further setup, for every
  kind of transport. The code does so for an accepted socket, and does not for a named
  pipe: with five protocols pending and the default limit of five, a named-pipe connection
  gets a protocol that is appended to the pending list and started, so that six are
  pending; a TCP connection in the same state is closed and nothing else happens.
\<close>

theorem named_pipe_connection_exceeds_limit:
  "int (length (potential_protocols five_pending)) = MAX_CONCURRENT_CONNECTIONS default_env \<and>
   fst (handle_new_connection default_env ''named-pipe'' 2 0 None five_pending) = None \<and>
   potential_protocols (snd (handle_new_connection default_env ''named-pipe'' 2 0 None five_pending))
     = [0, 1, 2, 3, 4, 5] \<and>
   trace (snd (handle_new_connection default_env ''named-pipe'' 2 0 None five_pending))
     = trace five_pending @
       [SocketProtocolInit 5 (NamedPipeConnection 2 0), SetSocketType 5 ''named-pipe'',
        SetAuthenticators 5, ProtoStart 5] \<and>
   handle_new_connection default_env ''tcp'' 2 0 (Some (AcceptedConnection 9)) five_pending
     = (None, emit [ConnClose (AcceptedConnection 9)] five_pending)"
  by (simp add: handle_new_connection_def five_pending_fields default_env_def
      str_lower_def lower_char_def)

subsection \<open>Close timers\<close>

text \<open>
  C2 (as amended): the dictionary of close timers records at most one timer id for a
  protocol. Handling a packet that is not connection-lost or gibberish adds a new timeout
  source to the main loop and records its id for the protocol, in place of any id recorded
  before; no source is removed, so a timer armed earlier for the same protocol stays live
  next to the new one.
\<close>

theorem arming_records_one_timer_without_cancelling:
  assumes "ptype pkt \<notin> set [CONNECTION_LOST, GIBBERISH]"
    and "process_network_packet e proto pkt s = (None, s')"
    and "distinct (map fst (close_timers s))"
  shows "map_of (close_timers s') proto = Some (next_source_id s) \<and>
         distinct (map fst (close_timers s')) \<and>
         timeouts s' = timeouts s @ [(next_source_id s, REQUEST_TIMEOUT e * 1000, proto)]"
proof -
  have ne: "ptype pkt \<noteq> CONNECTION_LOST" "ptype pkt \<noteq> GIBBERISH"
    using assms(1) by auto
  have "close_timers s' = AList.update proto (next_source_id s) (close_timers s) \<and>
        timeouts s' = timeouts s @ [(next_source_id s, REQUEST_TIMEOUT e * 1000, proto)]"
    using assms(2) ne
    by (auto simp: process_network_packet_def Let_def split: if_splits option.splits)
  then show ?thesis
    using assms(3) by (simp add: update_conv' distinct_update)
qed

text \<open>The theorem at the second hello packet of a protocol.\<close>

theorem arming_records_one_timer_without_cancelling_witness:
  "ptype (hello_packet ''version'') \<notin> set [CONNECTION_LOST, GIBBERISH] \<and>
   process_network_packet default_env 0 (hello_packet ''version'') hello_once = (None, hello_twice) \<and>
   distinct (map fst (close_timers hello_once)) \<and>
   map_of (close_timers hello_twice) 0 = Some (next_source_id hello_once) \<and>
   distinct (map fst (close_timers hello_twice)) \<and>
   timeouts hello_twice
     = timeouts hello_once @ [(next_source_id hello_once, REQUEST_TIMEOUT default_env * 1000, 0)]"
proof -
  have a: "ptype (hello_packet ''version'') \<notin> set [CONNECTION_LOST, GIBBERISH]"
    by (simp add: hello_packet_def CONNECTION_LOST_def GIBBERISH_def)
  have b: "process_network_packet default_env 0 (hello_packet ''version'') hello_once
             = (None, hello_twice)"
    by (simp add: hello_twice_def prod_eq_iff hello_packet_def process_hello_fields)
  have c: "distinct (map fst (close_timers hello_once))"
    by (simp add: hello_once_fields)
  show ?thesis
    using a b c arming_records_one_timer_without_cancelling [OF a b c] by simp
qed

text \<open>
  Against the claim as it was stated: after two hello packets on protocol 0 the main loop
  holds two live close timers for it, the first one not cancelled.
\<close>

theorem rearming_leaves_old_timer_live:
  "timeouts hello_once = [(1, 10000, 0)] \<and>
   timeouts hello_twice = [(1, 10000, 0), (2, 10000, 0)] \<and>
   close_timers hello_twice = [(0, 2)]"
  by (simp add: hello_once_fields hello_twice_fields)

text \<open>
  C3 (as amended): when the \<^verbatim>\<open>close\<close> callback of a protocol runs, for a connection-lost or
  gibberish packet or because one of its timeouts fires, the protocol's entry in the
  dictionary of close timers and the protocol's entry in the pending list are removed in
  that step; no timeout source is cancelled (a firing source goes away by itself, any other
  stays live). Subsystem cleanup empties the dictionary of close timers and cancels every
  timer recorded in it, and leaves the pending list as it was.
\<close>

theorem close_forgets_timer_and_pending_entry:
  assumes "distinct (potential_protocols s)"
  shows "(ptype pkt \<in> set [CONNECTION_LOST, GIBBERISH] \<longrightarrow>
          map_of (close_timers (snd (process_network_packet e proto pkt s))) proto = None \<and>
          proto \<notin> set (potential_protocols (snd (process_network_packet e proto pkt s))) \<and>
          timeouts (snd (process_network_packet e proto pkt s)) = timeouts s) \<and>
         (distinct (map fst (timeouts s)) \<and> (t, ms, proto) \<in> set (timeouts s) \<longrightarrow>
          map_of (close_timers (fire_timeout t s)) proto = None \<and>
          proto \<notin> set (potential_protocols (fire_timeout t s)) \<and>
          timeouts (fire_timeout t s) = filter (\<lambda>src. fst src \<noteq> t) (timeouts s)) \<and>
         (close_timers (cleanup_sockets e s) = [] \<and>
          (\<forall>(p, i) \<in> set (close_timers s). i \<notin> fst ` set (timeouts (cleanup_sockets e s))) \<and>
          potential_protocols (cleanup_sockets e s) = potential_protocols s)"
proof -
  have c: "map_of (close_timers (close proto s)) proto = None \<and>
           proto \<notin> set (potential_protocols (close proto s)) \<and>
           timeouts (close proto s) = timeouts s"
    using assms by (simp add: delete_conv')
  have "distinct (map fst (timeouts s)) \<Longrightarrow> (t, ms, proto) \<in> set (timeouts s) \<Longrightarrow>
        fire_timeout t s = source_remove t (close proto s)"
    by (simp add: fire_timeout_def find_distinct_key)
  moreover have "\<forall>(p, i) \<in> set (close_timers s). i \<notin> fst ` set (timeouts (cleanup_sockets e s))"
    by (auto simp: rev_image_eqI)
  ultimately show ?thesis
    using c by (auto simp: process_lost_or_gibberish simp del: set_simps)
qed

text \<open>The theorem on a protocol with two timers armed: a gibberish packet leaves both
  live, firing the first leaves the second, cleanup cancels the recorded second only.\<close>

theorem close_forgets_timer_and_pending_entry_witness:
  "distinct (potential_protocols hello_twice) \<and>
   ptype (Packet GIBBERISH None) \<in> set [CONNECTION_LOST, GIBBERISH] \<and>
   distinct (map fst (timeouts hello_twice)) \<and> (1, 10000, 0) \<in> set (timeouts hello_twice) \<and>
   map_of (close_timers (snd (process_network_packet default_env 0 (Packet GIBBERISH None) hello_twice))) 0 = None \<and>
   0 \<notin> set (potential_protocols (snd (process_network_packet default_env 0 (Packet GIBBERISH None) hello_twice))) \<and>
   timeouts (snd (process_network_packet default_env 0 (Packet GIBBERISH None) hello_twice)) = timeouts hello_twice \<and>
   map_of (close_timers (fire_timeout 1 hello_twice)) 0 = None \<and>
   0 \<notin> set (potential_protocols (fire_timeout 1 hello_twice)) \<and>
   timeouts (fire_timeout 1 hello_twice) = [(2, 10000, 0)] \<and>
   close_timers (cleanup_sockets default_env hello_twice) = [] \<and>
   timeouts (cleanup_sockets default_env hello_twice) = [(1, 10000, 0)] \<and>
   potential_protocols (cleanup_sockets default_env hello_twice) = [0]"
proof -
  have d: "distinct (potential_protocols hello_twice)"
    by (simp add: hello_twice_fields)
  show ?thesis
    using close_forgets_timer_and_pending_entry
      [OF d, of "Packet GIBBERISH None" default_env 0 1 10000]
    by (simp add: hello_twice_fields)
qed

text \<open>
  Against the claim as it was stated: a gibberish packet after a hello packet closes
  protocol 0 and leaves its timer live in the main loop, and subsystem cleanup leaves
  protocol 0 in the pending list.
\<close>

theorem close_leaves_timer_or_pending_entry:
  "process_network_packet default_env 0 (Packet GIBBERISH None) hello_once
     = (None, close 0 hello_once) \<and>
   potential_protocols (close 0 hello_once) = [] \<and>
   timeouts (close 0 hello_once) = [(1, 10000, 0)] \<and>
   close_timers hello_once = [(0, 1)] \<and>
   potential_protocols (cleanup_sockets default_env hello_once) = [0]"
  by (simp add: process_lost_or_gibberish hello_once_fields)

subsection \<open>Connection-lost and gibberish packets\<close>

text \<open>
  C4 (as amended): a packet of type connection-lost or gibberish raises no exception,
  removes the protocol from the pending list and forgets its close timer, sends no packet
  and queues nothing; the protocol's \<^verbatim>\<open>close()\<close> is called exactly when a close timer was
  recorded for it, so not when this is the first packet of the protocol.
\<close>

theorem lost_or_gibberish_closes_without_reply:
  assumes "ptype pkt \<in> set [CONNECTION_LOST, GIBBERISH]"
  shows "fst (process_network_packet e proto pkt s) = None \<and>
         potential_protocols (snd (process_network_packet e proto pkt s))
           = remove1 proto (potential_protocols s) \<and>
         map_of (close_timers (snd (process_network_packet e proto pkt s))) proto = None \<and>
         timeouts (snd (process_network_packet e proto pkt s)) = timeouts s \<and>
         idle_queue (snd (process_network_packet e proto pkt s)) = idle_queue s \<and>
         trace (snd (process_network_packet e proto pkt s)) = trace s @
           (case map_of (close_timers s) proto of
              None \<Rightarrow> []
            | Some t \<Rightarrow> if t \<noteq> 0 then [ProtoClose proto] else [])"
  using assms by (simp add: process_lost_or_gibberish delete_conv' del: set_simps)

text \<open>The theorem at a connection-lost packet that follows a hello packet.\<close>

theorem lost_or_gibberish_closes_without_reply_witness:
  "ptype (Packet CONNECTION_LOST None) \<in> set [CONNECTION_LOST, GIBBERISH] \<and>
   fst (process_network_packet default_env 0 (Packet CONNECTION_LOST None) hello_once) = None \<and>
   potential_protocols (snd (process_network_packet default_env 0 (Packet CONNECTION_LOST None) hello_once)) = [] \<and>
   map_of (close_timers (snd (process_network_packet default_env 0 (Packet CONNECTION_LOST None) hello_once))) 0 = None \<and>
   timeouts (snd (process_network_packet default_env 0 (Packet CONNECTION_LOST None) hello_once)) = [(1, 10000, 0)] \<and>
   trace (snd (process_network_packet default_env 0 (Packet CONNECTION_LOST None) hello_once))
     = trace hello_once @ [ProtoClose 0]"
  using lost_or_gibberish_closes_without_reply
    [of "Packet CONNECTION_LOST None" default_env 0 hello_once]
  by (simp add: hello_once_fields)

text \<open>
  Against the claim as it was stated: a gibberish packet that is the first packet of
  protocol 0 removes it from the pending list and makes no call at all, so the protocol's
  \<^verbatim>\<open>close()\<close>, which releases the connection, is not called.
\<close>

theorem first_packet_gibberish_skips_protocol_close:
  "close_timers one_pending = [] \<and>
   process_network_packet default_env 0 (Packet GIBBERISH None) one_pending
     = (None, close 0 one_pending) \<and>
   potential_protocols (close 0 one_pending) = [] \<and>
   trace (close 0 one_pending) = trace one_pending"
  by (simp add: process_lost_or_gibberish one_pending_fields)

subsection \<open>Requests\<close>

text \<open>
  C5: a request that \<^verbatim>\<open>is_request_allowed\<close> denies, or whose name is not in the dispatch
  table, gets a disconnect whose only reason is \<^verbatim>\<open>PROTOCOL_ERROR\<close>; nothing else is sent or
  queued, so there is no reply packet and no text of a reason. In a hello packet that
  carries such a (non-empty) request the calls made are the three negotiation calls and
  that disconnect.
\<close>

theorem denied_or_unknown_request_gets_protocol_error:
  assumes "\<not> is_request_allowed e proto r \<or> r \<notin> set spec_dispatch_table"
  shows "handle_hello_request e proto r c s = emit [SendDisconnect proto [PROTOCOL_ERROR] None] s \<and>
         (r \<noteq> [] \<longrightarrow>
            trace (snd (process_network_packet e proto
                     (Packet ''hello'' (Some \<lparr>request = Some r, command_request = cmd\<rparr>)) s))
              = trace s @ [ParseRemoteCaps proto, EnableCompressorFromCaps proto,
                           EnableEncoderFromCaps proto,
                           SendDisconnect proto [PROTOCOL_ERROR] None])"
proof -
  have h: "handle_hello_request e proto r c' s' = emit [SendDisconnect proto [PROTOCOL_ERROR] None] s'"
    for c' s'
    using assms by (auto simp: handle_hello_request_def spec_dispatch_table_def)
  show ?thesis
    by (simp add: h process_network_packet_def Let_def strget_request_def)
qed

text \<open>The theorem at the request \<^verbatim>\<open>bogus\<close>, which is permitted and not in the table, and
  at the request \<^verbatim>\<open>id\<close>, which is in the table, where it is denied.\<close>

theorem denied_or_unknown_request_gets_protocol_error_witness:
  "is_request_allowed default_env 0 ''bogus'' \<and> ''bogus'' \<notin> set spec_dispatch_table \<and>
   handle_hello_request default_env 0 ''bogus'' \<lparr>request = Some ''bogus'', command_request = []\<rparr> one_pending
     = emit [SendDisconnect 0 [PROTOCOL_ERROR] None] one_pending \<and>
   trace (snd (process_network_packet default_env 0 (hello_packet ''bogus'') one_pending))
     = trace one_pending @ [ParseRemoteCaps 0, EnableCompressorFromCaps 0,
                            EnableEncoderFromCaps 0, SendDisconnect 0 [PROTOCOL_ERROR] None] \<and>
   \<not> is_request_allowed denying_env 0 ''id'' \<and> ''id'' \<in> set spec_dispatch_table \<and>
   trace (snd (process_network_packet denying_env 0 (hello_packet ''id'') one_pending))
     = trace one_pending @ [ParseRemoteCaps 0, EnableCompressorFromCaps 0,
                            EnableEncoderFromCaps 0, SendDisconnect 0 [PROTOCOL_ERROR] None]"
proof -
  have a: "\<not> is_request_allowed default_env 0 ''bogus'' \<or> ''bogus'' \<notin> set spec_dispatch_table"
    by (simp add: spec_dispatch_table_def)
  have b: "is_request_allowed default_env 0 ''bogus''"
    by (simp add: default_env_def)
  have c: "\<not> is_request_allowed denying_env 0 ''id'' \<or> ''id'' \<notin> set spec_dispatch_table"
    by (simp add: denying_env_def)
  have d: "''id'' \<in> set spec_dispatch_table"
    by (simp add: spec_dispatch_table_def)
  show ?thesis
    using a b c d
      denied_or_unknown_request_gets_protocol_error
        [OF a, of "\<lparr>request = Some ''bogus'', command_request = []\<rparr>" one_pending "[]"]
      denied_or_unknown_request_gets_protocol_error
        [OF c, of "\<lparr>request = Some ''id'', command_request = []\<rparr>" one_pending "[]"]
    by (simp add: hello_packet_def denying_env_def)
qed

text \<open>
  C6 (as amended): a permitted \<^verbatim>\<open>command\<close> request sends nothing by itself and queues
  the execution of the command. When the queued callback runs, in whatever state, and the
  command returns, the callback raises nothing and sends one hello packet whose payload
  maps \<^verbatim>\<open>command_response\<close> to (0, "done"); when the command raises an \<^verbatim>\<open>Exception\<close>, the
  exception is caught, the callback raises nothing and sends one hello packet whose
  payload maps \<^verbatim>\<open>command_response\<close> to (1, the text of the exception). An exception that
  is not an \<^verbatim>\<open>Exception\<close> is not caught: it leaves the callback, and no reply is sent.
\<close>

theorem command_request_reply:
  assumes "is_request_allowed e proto ''command''"
  shows "trace (handle_hello_request e proto ''command'' c s) = trace s \<and>
         idle_queue (handle_hello_request e proto ''command'' c s)
           = idle_queue s @ [process_control_task proto (command_request c)] \<and>
         (control_result e (''control'' # command_request c) = Returns \<longrightarrow>
            fst (run_idle_task e (process_control_task proto (command_request c)) s') = None \<and>
            trace (snd (run_idle_task e (process_control_task proto (command_request c)) s'))
              = trace s' @ [ProcessControl (''control'' # command_request c),
                   SendNow proto [PStr ''hello'',
                     PDict [(''command_response'', PTuple [PInt 0, PStr ''done''])]]]) \<and>
         (\<forall>text. control_result e (''control'' # command_request c) = RaisesException text \<longrightarrow>
            fst (run_idle_task e (process_control_task proto (command_request c)) s') = None \<and>
            trace (snd (run_idle_task e (process_control_task proto (command_request c)) s'))
              = trace s' @ [ProcessControl (''control'' # command_request c),
                   SendNow proto [PStr ''hello'',
                     PDict [(''command_response'', PTuple [PInt 1, PStr text])]]]) \<and>
         (\<forall>text. control_result e (''control'' # command_request c) = RaisesBaseException text \<longrightarrow>
            fst (run_idle_task e (process_control_task proto (command_request c)) s')
              = Some (BaseException text) \<and>
            trace (snd (run_idle_task e (process_control_task proto (command_request c)) s'))
              = trace s' @ [ProcessControl (''control'' # command_request c)])"
proof -
  have h: "handle_hello_request e proto ''command'' c s
             = idle_add (process_control_task proto (command_request c)) s"
    using assms by (simp add: handle_hello_request_def)
  show ?thesis
    by (simp add: h run_idle_task_def process_control_def hello_reply_def idle_add_def emit_def
        ExitCode_OK_def ExitCode_FAILURE_def Let_def
        del: emit_fields hello_reply_fields idle_add_fields)
qed

text \<open>The theorem at the command \<^verbatim>\<open>echo hi\<close>, where it succeeds and where it fails.\<close>

theorem command_request_reply_witness:
  "is_request_allowed default_env 0 ''command'' \<and> is_request_allowed failing_env 0 ''command'' \<and>
   control_result default_env (''control'' # command_request command_caps) = Returns \<and>
   control_result failing_env (''control'' # command_request command_caps)
     = RaisesException ''no such command'' \<and>
   trace (handle_hello_request default_env 0 ''command'' command_caps one_pending)
     = trace one_pending \<and>
   idle_queue (handle_hello_request default_env 0 ''command'' command_caps one_pending)
     = [process_control_task 0 [''echo'', ''hi'']] \<and>
   fst (run_idle_task default_env (process_control_task 0 [''echo'', ''hi'']) one_pending) = None \<and>
   trace (snd (run_idle_task default_env (process_control_task 0 [''echo'', ''hi'']) one_pending))
     = trace one_pending @ [ProcessControl [''control'', ''echo'', ''hi''],
          SendNow 0 [PStr ''hello'',
            PDict [(''command_response'', PTuple [PInt 0, PStr ''done''])]]] \<and>
   fst (run_idle_task failing_env (process_control_task 0 [''echo'', ''hi'']) one_pending) = None \<and>
   trace (snd (run_idle_task failing_env (process_control_task 0 [''echo'', ''hi'']) one_pending))
     = trace one_pending @ [ProcessControl [''control'', ''echo'', ''hi''],
          SendNow 0 [PStr ''hello'',
            PDict [(''command_response'', PTuple [PInt 1, PStr ''no such command''])]]]"
proof -
  have a: "is_request_allowed default_env 0 ''command''"
    and b: "is_request_allowed failing_env 0 ''command''"
    by (simp_all add: failing_env_def default_env_def)
  have c: "control_result default_env (''control'' # command_request command_caps) = Returns"
    and d: "control_result failing_env (''control'' # command_request command_caps)
              = RaisesException ''no such command''"
    by (simp_all add: failing_env_def default_env_def)
  show ?thesis
    using a b c d
      command_request_reply [OF a, of command_caps one_pending one_pending]
      command_request_reply [OF b, of command_caps one_pending one_pending]
    by (auto simp: command_caps_def one_pending_fields)
qed

text \<open>
  Against the claim as it was stated: when the command raises \<^verbatim>\<open>SystemExit\<close>, which is not
  an \<^verbatim>\<open>Exception\<close>, the exception leaves the callback and the trace shows the call of the
  command and no reply.
\<close>

theorem command_base_exception_propagates:
  "is_request_allowed exiting_env 0 ''command'' \<and>
   control_result exiting_env [''control'', ''echo'', ''hi''] = RaisesBaseException ''SystemExit'' \<and>
   fst (run_idle_task exiting_env (process_control_task 0 [''echo'', ''hi'']) one_pending)
     = Some (BaseException ''SystemExit'') \<and>
   trace (snd (run_idle_task exiting_env (process_control_task 0 [''echo'', ''hi'']) one_pending))
     = trace one_pending @ [ProcessControl [''control'', ''echo'', ''hi'']]"
  by (simp add: exiting_env_def default_env_def run_idle_task_def process_control_def emit_def
      Let_def del: emit_fields)

text \<open>
  C7: a permitted \<^verbatim>\<open>id\<close> request is answered at once (nothing is queued) with one hello
  packet whose payload has the five keys session-type, session-name, platform, pid and
  machine-id and no other, pid being the process id and machine-id the value of the
  machine-id accessor.
\<close>

theorem id_request_reply:
  assumes "is_request_allowed e proto ''id''"
  shows "trace (handle_hello_request e proto ''id'' c s)
           = trace s @ [SendNow proto [PStr ''hello'', PDict (get_id_info e s)]] \<and>
         idle_queue (handle_hello_request e proto ''id'' c s) = idle_queue s \<and>
         handle_hello_request e proto ''id'' c s
           = s\<lparr>trace := trace s @ [SendNow proto [PStr ''hello'', PDict (get_id_info e s)]]\<rparr> \<and>
         map fst (get_id_info e s)
           = [''session-type'', ''session-name'', ''platform'', ''pid'', ''machine-id''] \<and>
         map_of (get_id_info e s) ''pid'' = Some (PInt (getpid e)) \<and>
         map_of (get_id_info e s) ''machine-id'' = Some (PStr (get_machine_id e))"
proof -
  have h: "handle_hello_request e proto ''id'' c s = hello_reply proto (get_id_info e s) s"
    using assms by (simp add: handle_hello_request_def)
  show ?thesis
    by (simp add: h get_id_info_def) (simp add: hello_reply_def emit_def)
qed

text \<open>The theorem in the default environment.\<close>

theorem id_request_reply_witness:
  "is_request_allowed default_env 0 ''id'' \<and>
   trace (handle_hello_request default_env 0 ''id''
            \<lparr>request = Some ''id'', command_request = []\<rparr> one_pending)
     = trace one_pending @ [SendNow 0 [PStr ''hello'', PDict
         [(''session-type'', PStr ''client''), (''session-name'', PStr ''session''),
          (''platform'', PStr ''linux''), (''pid'', PInt 4242),
          (''machine-id'', PStr ''0123abcd'')]]] \<and>
   idle_queue (handle_hello_request default_env 0 ''id''
            \<lparr>request = Some ''id'', command_request = []\<rparr> one_pending) = []"
proof -
  have a: "is_request_allowed default_env 0 ''id''"
    by (simp add: default_env_def)
  show ?thesis
    using a id_request_reply [OF a, of "\<lparr>request = Some ''id'', command_request = []\<rparr>" one_pending]
    by (simp add: get_id_info_def one_pending_fields) (simp add: default_env_def)
qed

text \<open>
  C8: after a hello packet, whatever request it carries (none, a permitted one such as
  \<^verbatim>\<open>detach\<close>, a rejected one), no exception is raised and a close timer is armed for the
  protocol: a new timeout source of \<^verbatim>\<open>REQUEST_TIMEOUT\<close> seconds (10 by default, so 10000
  milliseconds) is live in the main loop and recorded for the protocol. When that source
  fires, the protocol is closed and leaves the pending list.
\<close>

theorem hello_always_arms_close_timer:
  "fst (process_network_packet e proto (Packet ''hello'' (Some c)) s) = None \<and>
   map_of (close_timers (snd (process_network_packet e proto (Packet ''hello'' (Some c)) s))) proto
     = Some (next_source_id s) \<and>
   (next_source_id s, REQUEST_TIMEOUT e * 1000, proto)
     \<in> set (timeouts (snd (process_network_packet e proto (Packet ''hello'' (Some c)) s))) \<and>
   REQUEST_TIMEOUT default_env * 1000 = 10000 \<and>
   (distinct (potential_protocols s) \<and> 0 < next_source_id s \<and>
    (\<forall>src \<in> set (timeouts s). fst src < next_source_id s) \<longrightarrow>
      proto \<notin> set (potential_protocols
        (fire_timeout (next_source_id s)
           (snd (process_network_packet e proto (Packet ''hello'' (Some c)) s)))) \<and>
      trace (fire_timeout (next_source_id s)
           (snd (process_network_packet e proto (Packet ''hello'' (Some c)) s)))
        = trace (snd (process_network_packet e proto (Packet ''hello'' (Some c)) s))
            @ [ProtoClose proto])"
proof -
  let ?s' = "snd (process_network_packet e proto (Packet ''hello'' (Some c)) s)"
  have t: "timeouts ?s' = timeouts s @ [(next_source_id s, REQUEST_TIMEOUT e * 1000, proto)]"
    and m: "map_of (close_timers ?s') proto = Some (next_source_id s)"
    and p: "potential_protocols ?s' = potential_protocols s"
    by (simp_all add: process_hello_fields update_conv')
  have f: "fire_timeout (next_source_id s) ?s' = source_remove (next_source_id s) (close proto ?s')"
    if "\<forall>src \<in> set (timeouts s). fst src < next_source_id s"
    using that by (simp add: fire_timeout_def t find_fresh_last)
  show ?thesis
    using f m by (simp add: process_hello_fields p t default_env_def)
qed

text \<open>The theorem at a \<^verbatim>\<open>detach\<close> request, the first packet of protocol 0.\<close>

theorem hello_always_arms_close_timer_witness:
  "distinct (potential_protocols one_pending) \<and> 0 < next_source_id one_pending \<and>
   timeouts one_pending = [] \<and>
   map_of (close_timers (snd (process_network_packet default_env 0 (hello_packet ''detach'') one_pending))) 0
     = Some 1 \<and>
   (1, 10000, 0) \<in> set (timeouts (snd (process_network_packet default_env 0 (hello_packet ''detach'') one_pending))) \<and>
   0 \<notin> set (potential_protocols (fire_timeout 1
          (snd (process_network_packet default_env 0 (hello_packet ''detach'') one_pending)))) \<and>
   trace (fire_timeout 1
          (snd (process_network_packet default_env 0 (hello_packet ''detach'') one_pending)))
     = trace (snd (process_network_packet default_env 0 (hello_packet ''detach'') one_pending))
         @ [ProtoClose 0]"
  using hello_always_arms_close_timer
    [of default_env 0 "\<lparr>request = Some ''detach'', command_request = []\<rparr>" one_pending]
  by (simp add: one_pending_fields hello_packet_def default_env_def)

subsection \<open>Teardown\<close>



subsection \<open>Shutdown\<close>

text \<open>
  C10: once the client's exit code is set, the new-connection callback ignores the
  notification: whatever the socket type, the listener, the handle and whatever an accept
  would have returned, the state (pending protocols, trace of calls, everything else) is
  unchanged and the callback returns False.
\<close>

theorem new_connection_during_shutdown:
  "exit_code s = Some code \<Longrightarrow> new_connection e socktype l handle accepted s = (s, False)"
  by (simp add: new_connection_def)

theorem new_connection_during_shutdown_witness:
  "exit_code (init_client\<lparr>exit_code := Some 0\<rparr>) = Some 0 \<and>
   new_connection default_env ''tcp'' 3 0 (Some (AcceptedConnection 7))
     (init_client\<lparr>exit_code := Some 0\<rparr>) = (init_client\<lparr>exit_code := Some 0\<rparr>, False)"
  using new_connection_during_shutdown
    [of "init_client\<lparr>exit_code := Some 0\<rparr>" 0 default_env "''tcp''" 3 0
        "Some (AcceptedConnection 7)"]
  by simp

end
